theory Spec2Isabelle
  imports Main "HOL-Library.Sublist" "HOL-Library.AList" "HOL-Library.Word"
begin

section \<open>Headless export of chart specifications (altair/utils/headless.py)\<close>

text \<open>
  \<^verbatim>\<open>save_spec(spec, fp, mode=None, format=None)\<close> renders a chart specification in a
  headless browser and writes the image to \<^verbatim>\<open>fp\<close>. The function is a fixed sequence of
  calls into the browser driver, the filesystem and the standard library, protected by two
  nested \<^verbatim>\<open>try ... finally\<close> blocks. The embedding keeps that shape: every statement
  is a state transformer that may raise, the two \<^verbatim>\<open>finally\<close> blocks run on every exit
  of their \<^verbatim>\<open>try\<close>, and the local variables \<^verbatim>\<open>driver\<close>, \<^verbatim>\<open>name\<close> and
  \<^verbatim>\<open>render\<close> are part of the state, unbound until assigned, as in Python.
\<close>

subsection \<open>Data\<close>

text \<open>
  Values exchanged with the browser: the chart specification that \<^verbatim>\<open>json.dumps\<close>
  serialises, and whatever \<^verbatim>\<open>execute_script\<close> returns.
\<close>

datatype json =
    JNull
  | JBool bool
  | JNum int
  | JStr string
  | JArr "json list"
  | JObj "(string \<times> json) list"

type_synonym byte = "8 word"

text \<open>The \<^verbatim>\<open>opt\<close> dictionary: string keys, string values, in insertion order.\<close>

type_synonym opt = "(string \<times> string) list"

text \<open>\<^verbatim>\<open>fp\<close> is a filename or an open file-like object.\<close>

datatype dest = Path string | FileObj nat

text \<open>
  The calls that leave the function, each with the arguments the source passes.
  \<^verbatim>\<open>Execute_embed spec opt\<close> is \<^verbatim>\<open>execute_script\<close> on \<^verbatim>\<open>EMBED_CODE\<close> formatted
  with the two serialised values, \<^verbatim>\<open>Execute_convert format\<close> is \<^verbatim>\<open>execute_script\<close> on
  \<^verbatim>\<open>CONVERT_CODE[format]\<close>, \<^verbatim>\<open>Execute_extract\<close> on \<^verbatim>\<open>EXTRACT_CODE\<close>;
  \<^verbatim>\<open>Write_template\<close> is \<^verbatim>\<open>f.write(HTML_TEMPLATE)\<close>.
\<close>

datatype call =
    Import string
  | Options_new
  | Add_argument string
  | Chrome
  | Mkstemp
  | Open_w string
  | Write_template string
  | Get string
  | Execute_embed json opt
  | Execute_convert string
  | Execute_extract
  | Os_remove string
  | Driver_close
  | Write_out dest "byte list" string

text \<open>
  The exceptions of the source: the three it raises itself, the ones Python raises for it
  (an unbound local, a missing attribute, an index out of range, a failed encoding or
  base64 decoding), and \<^verbatim>\<open>Raised c\<close>, the exception that the library call
  \<^verbatim>\<open>c\<close> raised.
\<close>

datatype error =
    NotImplementedError
  | ImportError
  | ValueError
  | UnboundLocalError string
  | AttributeError
  | IndexError
  | UnicodeEncodeError
  | Binascii_Error
  | Raised call

text \<open>
  The environment of one call: which library calls fail, the name \<^verbatim>\<open>mkstemp\<close> hands
  out, the value the extraction script returns, the standard library's \<^verbatim>\<open>str.encode\<close>
  and \<^verbatim>\<open>base64.decodebytes\<close> (\<^verbatim>\<open>None\<close> where they raise), and how many bytes a
  failing write to the destination leaves behind.
\<close>

record env =
  fails :: "call \<Rightarrow> bool"
  tmp_name :: string
  extracted :: json
  str_encode :: "string \<Rightarrow> byte list option"
  b64_decodebytes :: "byte list \<Rightarrow> byte list option"
  partial_write :: nat

text \<open>What a write to the destination left there.\<close>

record written =
  target :: dest
  open_mode :: "string option"
  bytes :: "byte list"

text \<open>
  The state of one call: the browser process of this call and its window, the temporary
  file of this call, what has been written to the destination, the calls made so far, and
  the three local variables (\<^verbatim>\<open>driver\<close> bound or not, \<^verbatim>\<open>name\<close> and \<^verbatim>\<open>render\<close>
  with their values).
\<close>

record state =
  browser_running :: bool
  window_open :: bool
  tmp_exists :: bool
  destination :: "written option"
  trace :: "call list"
  driver :: bool
  name :: "string option"
  render :: "json option"

definition initial :: state where
  "initial = \<lparr>browser_running = False, window_open = False, tmp_exists = False,
              destination = None, trace = [], driver = False, name = None, render = None\<rparr>"

subsection \<open>Statements\<close>

type_synonym stmt = "state \<Rightarrow> error option \<times> state"

definition raise :: "error \<Rightarrow> stmt" where
  "raise e s = (Some e, s)"

text \<open>A sequence of statements stops at the first one that raises.\<close>

fun block :: "stmt list \<Rightarrow> stmt" where
  "block [] s = (None, s)"
| "block (c # cs) s =
     (case c s of (Some e, s1) \<Rightarrow> (Some e, s1) | (None, s1) \<Rightarrow> block cs s1)"

text \<open>
  \<^verbatim>\<open>try: body finally: handler\<close>. The handler runs however the body ends; an exception
  of the handler replaces the outcome of the body.
\<close>

definition try_finally :: "stmt \<Rightarrow> stmt \<Rightarrow> stmt" where
  "try_finally body handler s =
     (case body s of (r, s1) \<Rightarrow>
        (case handler s1 of (Some e, s2) \<Rightarrow> (Some e, s2) | (None, s2) \<Rightarrow> (r, s2)))"

text \<open>A library call: recorded, then either raising or taking effect.\<close>

definition invoke :: "env \<Rightarrow> call \<Rightarrow> (state \<Rightarrow> state) \<Rightarrow> stmt" where
  "invoke env c effect s =
     (let s1 = s\<lparr>trace := trace s @ [c]\<rparr>
      in if fails env c then (Some (Raised c), s1) else (None, effect s1))"

text \<open>Reading a local variable raises \<^verbatim>\<open>UnboundLocalError\<close> while it is unbound.\<close>

definition with_driver :: "stmt \<Rightarrow> stmt" where
  "with_driver k s = (if driver s then k s else (Some (UnboundLocalError ''driver''), s))"

definition with_name :: "(string \<Rightarrow> stmt) \<Rightarrow> stmt" where
  "with_name k s =
     (case name s of None \<Rightarrow> (Some (UnboundLocalError ''name''), s) | Some n \<Rightarrow> k n s)"

definition with_render :: "(json \<Rightarrow> stmt) \<Rightarrow> stmt" where
  "with_render k s =
     (case render s of None \<Rightarrow> (Some (UnboundLocalError ''render''), s) | Some r \<Rightarrow> k r s)"

subsection \<open>Helpers of the package and of Python\<close>

text \<open>\<^verbatim>\<open>str.split(sep)\<close> for a one-character separator: never empty.\<close>

fun split_py :: "string \<Rightarrow> char \<Rightarrow> string list" where
  "split_py [] sep = [[]]"
| "split_py (c # cs) sep =
     (if c = sep then [] # split_py cs sep
      else (case split_py cs sep of [] \<Rightarrow> [[c]] | w # ws \<Rightarrow> (c # w) # ws))"

text \<open>
  Modelled from the spec: \<^verbatim>\<open>attempt_import\<close> of \<^verbatim>\<open>altair/utils/importing.py\<close>, which is
  not among the sources: "attempt optional import, else raise with a descriptive message".
\<close>

definition attempt_import :: "env \<Rightarrow> string \<Rightarrow> stmt" where
  "attempt_import env module s =
     (let s1 = s\<lparr>trace := trace s @ [Import module]\<rparr>
      in if fails env (Import module) then (Some ImportError, s1) else (None, s1))"

text \<open>
  Modelled from the spec: \<^verbatim>\<open>write_file_or_filename\<close> of \<^verbatim>\<open>altair/utils/core.py\<close>, which
  is not among the sources: a generic "write bytes to file-or-stream" helper, "opening the
  path in binary-write mode if a path was given" (the mode is the caller's argument). A
  write that fails leaves some prefix of the content behind.
\<close>

definition write_file_or_filename :: "env \<Rightarrow> dest \<Rightarrow> byte list \<Rightarrow> string \<Rightarrow> stmt" where
  "write_file_or_filename env fp content mode s =
     (let c = Write_out fp content mode;
          s1 = s\<lparr>trace := trace s @ [c]\<rparr>;
          m = (case fp of Path p \<Rightarrow> Some mode | FileObj h \<Rightarrow> None)
      in if fails env c
         then (Some (Raised c),
               s1\<lparr>destination := Some \<lparr>target = fp, open_mode = m,
                                   bytes = take (partial_write env) content\<rparr>\<rparr>)
         else (None,
               s1\<lparr>destination := Some \<lparr>target = fp, open_mode = m, bytes = content\<rparr>\<rparr>))"

subsection \<open>save\_spec\<close>

text \<open>
  Lines 81-82: \<^verbatim>\<open>if format is None and isinstance(fp, six.string_types):
  format = fp.split('.')[-1]\<close>.
\<close>

definition resolve_format :: "dest \<Rightarrow> string option \<Rightarrow> string option" where
  "resolve_format fp format =
     (case format of
        Some f \<Rightarrow> Some f
      | None \<Rightarrow> (case fp of Path p \<Rightarrow> Some (last (split_py p CHR ''.'')) | FileObj h \<Rightarrow> None))"

text \<open>Lines 92-96: the \<^verbatim>\<open>opt\<close> dictionary and the check of \<^verbatim>\<open>mode\<close>.\<close>

definition make_opt :: "string \<Rightarrow> string option \<Rightarrow> error + opt" where
  "make_opt format mode =
     (let opt = [(''renderer'', if format = ''png'' then ''canvas'' else ''svg'')]
      in case mode of
           None \<Rightarrow> Inr opt
         | Some m \<Rightarrow>
             if m \<notin> set [''vega'', ''vega-lite''] then Inl ValueError
             else Inr (AList.update ''mode'' m opt))"

text \<open>
  Lines 98-114: the browser session and, inside it, the temporary document. The
  specification is a JSON value, so \<^verbatim>\<open>json.dumps\<close> does not raise, and the format is
  \<^verbatim>\<open>'png'\<close> or \<^verbatim>\<open>'svg'\<close> here, so the lookup \<^verbatim>\<open>CONVERT_CODE[format]\<close> finds
  its key. Each \<^verbatim>\<open>finally\<close> reads its local variable: where \<^verbatim>\<open>mkstemp\<close> or
  \<^verbatim>\<open>webdriver.Chrome\<close> raised, the variable is unbound and the handler raises
  \<^verbatim>\<open>UnboundLocalError\<close> in place of the pending exception.

  \<^verbatim>\<open>webdriver.Chrome\<close> starts the browser process and opens its window.
  \<^verbatim>\<open>driver.close()\<close>, the call of line 114, closes that window and nothing more: the
  driver's call that ends the process is \<^verbatim>\<open>quit()\<close>, and the source never makes it.
\<close>

definition temp_document :: "env \<Rightarrow> json \<Rightarrow> opt \<Rightarrow> string \<Rightarrow> stmt" where
  "temp_document env spec opt format =
     try_finally
       (block
          [invoke env Mkstemp (\<lambda>s. s\<lparr>tmp_exists := True, name := Some (tmp_name env)\<rparr>),
           with_name (\<lambda>n. invoke env (Open_w n) id),
           with_name (\<lambda>n. invoke env (Write_template n) id),
           with_driver (with_name (\<lambda>n. invoke env (Get (''file://'' @ n)) id)),
           with_driver (invoke env (Execute_embed spec opt) id),
           with_driver (invoke env (Execute_convert format) id),
           with_driver (invoke env Execute_extract (\<lambda>s. s\<lparr>render := Some (extracted env)\<rparr>))])
       (with_name (\<lambda>n. invoke env (Os_remove n) (\<lambda>s. s\<lparr>tmp_exists := False\<rparr>)))"

definition browser_session :: "env \<Rightarrow> json \<Rightarrow> opt \<Rightarrow> string \<Rightarrow> stmt" where
  "browser_session env spec opt format =
     try_finally
       (block
          [invoke env Options_new id,
           invoke env (Add_argument ''--headless'') id,
           invoke env Chrome
             (\<lambda>s. s\<lparr>browser_running := True, window_open := True, driver := True\<rparr>),
           temp_document env spec opt format])
       (with_driver (invoke env Driver_close (\<lambda>s. s\<lparr>window_open := False\<rparr>)))"

text \<open>Lines 116-121: decoding the extracted value.\<close>

definition decode_render :: "env \<Rightarrow> string \<Rightarrow> json \<Rightarrow> error + byte list" where
  "decode_render env format r =
     (if format = ''png'' then
        (case r of
           JStr t \<Rightarrow>
             (let parts = split_py t CHR '',''
              in if length parts \<le> 1 then Inl IndexError
                 else (case str_encode env (parts ! 1) of
                         None \<Rightarrow> Inl UnicodeEncodeError
                       | Some b \<Rightarrow>
                           (case b64_decodebytes env b of
                              None \<Rightarrow> Inl Binascii_Error
                            | Some img \<Rightarrow> Inr img)))
         | _ \<Rightarrow> Inl AttributeError)
      else
        (case r of
           JStr t \<Rightarrow>
             (case str_encode env t of None \<Rightarrow> Inl UnicodeEncodeError | Some img \<Rightarrow> Inr img)
         | _ \<Rightarrow> Inl AttributeError))"

definition decode_and_write :: "env \<Rightarrow> dest \<Rightarrow> string \<Rightarrow> stmt" where
  "decode_and_write env fp format =
     with_render (\<lambda>r.
       case decode_render env format r of
         Inl e \<Rightarrow> raise e
       | Inr img_bytes \<Rightarrow> write_file_or_filename env fp img_bytes ''wb'')"

definition save_spec ::
  "env \<Rightarrow> json \<Rightarrow> dest \<Rightarrow> string option \<Rightarrow> string option \<Rightarrow> error option \<times> state" where
  "save_spec env spec fp mode format =
     (case resolve_format fp format of
        None \<Rightarrow> (Some NotImplementedError, initial)
      | Some fmt \<Rightarrow>
          if fmt \<notin> set [''png'', ''svg''] then (Some NotImplementedError, initial)
          else
            block
              [attempt_import env ''selenium.webdriver'',
               attempt_import env ''selenium.webdriver.chrome.options'',
               (\<lambda>s. case make_opt fmt mode of
                       Inl e \<Rightarrow> raise e s
                     | Inr opt \<Rightarrow>
                         block [browser_session env spec opt fmt,
                                decode_and_write env fp fmt] s)]
              initial)"

subsection \<open>Vocabulary of the properties\<close>

text \<open>The calls that acquire or release one of the two resources.\<close>

fun is_resource_call :: "call \<Rightarrow> bool" where
  "is_resource_call Chrome = True"
| "is_resource_call Mkstemp = True"
| "is_resource_call (Os_remove n) = True"
| "is_resource_call Driver_close = True"
| "is_resource_call c = False"

text \<open>
  In the spec's words, the payload of a data URI: "split the data URI on its comma
  separator", the portion after the comma.
\<close>

definition payload :: "string \<Rightarrow> string" where
  "payload t = tl (dropWhile (\<lambda>c. c \<noteq> CHR '','') t)"

text \<open>The state in which the browser session starts: both imports done, nothing else.\<close>

definition imported :: state where
  "imported = initial\<lparr>trace := [Import ''selenium.webdriver'',
                                 Import ''selenium.webdriver.chrome.options'']\<rparr>"

text \<open>
  An example environment, for running the model on concrete calls: the listed calls fail
  and the extraction script returns the given value. Strings are encoded in UTF-8 (a
  character is a code point below 256). Base64 decoding works as
  \<^verbatim>\<open>base64.decodebytes\<close> does: bytes outside the alphabet are skipped, a group of two or
  three digits is closed by enough padding, after which the rest is ignored, and data
  that ends inside a group is an error.
\<close>

definition utf8_char :: "char \<Rightarrow> byte list" where
  "utf8_char c =
     (let n = (of_char c :: nat)
      in if n < 128 then [of_nat n] else [of_nat (192 + n div 64), of_nat (128 + n mod 64)])"

definition utf8_encode :: "string \<Rightarrow> byte list option" where
  "utf8_encode t = Some (concat (map utf8_char t))"

definition b64_digit :: "nat \<Rightarrow> nat option" where
  "b64_digit c =
     (if 65 \<le> c \<and> c \<le> 90 then Some (c - 65)
      else if 97 \<le> c \<and> c \<le> 122 then Some (c - 71)
      else if 48 \<le> c \<and> c \<le> 57 then Some (c + 4)
      else if c = 43 then Some 62
      else if c = 47 then Some 63
      else None)"

fun b64_group :: "nat list \<Rightarrow> byte list" where
  "b64_group [a, b] = [of_nat (a * 4 + b div 16)]"
| "b64_group [a, b, c] = [of_nat (a * 4 + b div 16), of_nat (b mod 16 * 16 + c div 4)]"
| "b64_group [a, b, c, d] =
     [of_nat (a * 4 + b div 16), of_nat (b mod 16 * 16 + c div 4), of_nat (c mod 4 * 64 + d)]"
| "b64_group ds = []"

fun b64_loop :: "nat list \<Rightarrow> nat \<Rightarrow> nat list \<Rightarrow> byte list option" where
  "b64_loop acc pads [] = (if acc = [] then Some [] else None)"
| "b64_loop acc pads (c # cs) =
     (if c = 61 then
        (if 2 \<le> length acc \<and> 4 \<le> length acc + Suc pads then Some (b64_group acc)
         else b64_loop acc (Suc pads) cs)
      else
        (case b64_digit c of
           None \<Rightarrow> b64_loop acc pads cs
         | Some d \<Rightarrow>
             if length acc = 3
             then map_option (\<lambda>rest. b64_group (acc @ [d]) @ rest) (b64_loop [] 0 cs)
             else b64_loop (acc @ [d]) 0 cs))"

definition b64_decode :: "byte list \<Rightarrow> byte list option" where
  "b64_decode b = b64_loop [] 0 (map unat b)"

definition sample_env :: "call list \<Rightarrow> json \<Rightarrow> env" where
  "sample_env failing result =
     \<lparr>fails = (\<lambda>c. c \<in> set failing), tmp_name = ''/tmp/tmp0.html'', extracted = result,
      str_encode = utf8_encode, b64_decodebytes = b64_decode, partial_write = 0\<rparr>"

section \<open>Lemmas\<close>

subsection \<open>Splitting strings\<close>

lemma split_py_nonempty: "split_py t sep \<noteq> []"
  by (induction t) (auto split: list.splits)

lemma split_py_no_sep: "sep \<notin> set t \<Longrightarrow> split_py t sep = [t]"
  by (induction t) auto

lemma split_py_first: "sep \<notin> set h \<Longrightarrow> split_py (h @ sep # p) sep = h # split_py p sep"
  by (induction h) auto

lemma length_split_py: "length (split_py t sep) = Suc (count_list t sep)"
  by (induction t) (auto split: list.splits)

lemma last_split_py: "last (split_py t sep) = rev (takeWhile (\<lambda>c. c \<noteq> sep) (rev t))"
proof (induction t)
  case Nil
  show ?case by simp
next
  case (Cons c cs)
  show ?case
  proof (cases "c = sep")
    case True
    then show ?thesis using Cons split_py_nonempty [of cs sep]
      by (simp add: takeWhile_append)
  next
    case False
    obtain w ws where ws: "split_py cs sep = w # ws"
      using split_py_nonempty [of cs sep] by (cases "split_py cs sep") auto
    show ?thesis
    proof (cases "sep \<in> set cs")
      case True
      then have "count_list cs sep \<noteq> 0" by (simp add: count_list_0_iff)
      then have "ws \<noteq> []" using ws length_split_py [of cs sep] by auto
      moreover have "takeWhile (\<lambda>c. c \<noteq> sep) (rev cs @ [c]) = takeWhile (\<lambda>c. c \<noteq> sep) (rev cs)"
        using True by (intro takeWhile_append1 [of sep]) auto
      ultimately show ?thesis using Cons ws False by simp
    next
      case no: False
      then show ?thesis using False by (simp add: split_py_no_sep takeWhile_append)
    qed
  qed
qed

lemma last_segment_iff:
  assumes "sep \<notin> set x"
  shows "last (split_py t sep) = x \<longleftrightarrow> t = x \<or> suffix (sep # x) t"
proof
  assume l: "last (split_py t sep) = x"
  let ?P = "\<lambda>c. c \<noteq> sep"
  have tw: "takeWhile ?P (rev t) = rev x" using l by (simp add: last_split_py rev_swap)
  have split: "rev t = rev x @ dropWhile ?P (rev t)"
    using takeWhile_dropWhile_id [of ?P "rev t"] tw by simp
  show "t = x \<or> suffix (sep # x) t"
  proof (cases "dropWhile ?P (rev t)")
    case Nil
    have "rev t = rev x" using split by (simp only: Nil append_Nil2)
    then show ?thesis by simp
  next
    case (Cons d ds)
    then have "\<not> ?P d" using hd_dropWhile [of ?P "rev t"] by auto
    then have "d = sep" by simp
    have "rev t = rev x @ d # ds" using split by (simp only: Cons)
    then have "rev t = rev x @ sep # ds" using \<open>d = sep\<close> by simp
    then have "t = rev ds @ sep # x" by (simp add: rev_swap)
    then show ?thesis by (auto simp: suffix_def)
  qed
next
  assume "t = x \<or> suffix (sep # x) t"
  then show "last (split_py t sep) = x"
  proof
    assume "t = x"
    then show ?thesis using assms by (simp add: split_py_no_sep)
  next
    assume "suffix (sep # x) t"
    then obtain q where "t = q @ sep # x" by (auto simp: suffix_def)
    then show ?thesis using assms by (simp add: last_split_py takeWhile_append)
  qed
qed

lemma split_py_second:
  assumes "count_list t sep = 1"
  shows "split_py t sep ! 1 = tl (dropWhile (\<lambda>c. c \<noteq> sep) t)"
proof -
  let ?P = "\<lambda>c. c \<noteq> sep"
  have "sep \<in> set t" using assms count_list_0_iff [of t sep] by auto
  then obtain p where dw: "dropWhile ?P t = sep # p"
    using hd_dropWhile [of ?P t] by (cases "dropWhile ?P t") auto
  have t: "t = takeWhile ?P t @ sep # p"
    using takeWhile_dropWhile_id [of ?P t] dw by simp
  have h: "sep \<notin> set (takeWhile ?P t)" by (auto dest: set_takeWhileD)
  have "count_list t sep = count_list (takeWhile ?P t) sep + Suc (count_list p sep)"
    by (subst t) simp
  then have "sep \<notin> set p" using assms h by (simp add: count_list_0_iff)
  then have "split_py t sep = [takeWhile ?P t, p]"
    using split_py_first [OF h, of p] t by (simp add: split_py_no_sep)
  then show ?thesis using dw by simp
qed

subsection \<open>The temporary document, the browser session, the whole call\<close>

lemmas stmt_defs = raise_def try_finally_def invoke_def with_driver_def with_name_def
  with_render_def attempt_import_def write_file_or_filename_def

lemma td_frame:
  assumes "temp_document env spec opt fmt s = (r, s')"
  shows "browser_running s' = browser_running s \<and> driver s' = driver s \<and> destination s' = destination s"
  using assms by (auto simp: temp_document_def stmt_defs Let_def split: option.splits if_splits)

lemma td_tmp: 
  assumes "temp_document env spec opt fmt s = (r, s')" "name s = None" "\<not> tmp_exists s"
    "\<not> fails env (Os_remove (tmp_name env))"
  shows "\<not> tmp_exists s'"
  using assms by (auto simp: temp_document_def stmt_defs Let_def split: option.splits if_splits)

lemma td_render:
  assumes "temp_document env spec opt fmt s = (None, s')"
  shows "render s' = Some (extracted env)"
  using assms by (auto simp: temp_document_def stmt_defs Let_def split: option.splits if_splits)

lemma td_resource:
  assumes "temp_document env spec opt fmt s = (r, s')" "name s = None"
  shows "filter is_resource_call (trace s') = filter is_resource_call (trace s) @
      (if fails env Mkstemp then [Mkstemp] else [Mkstemp, Os_remove (tmp_name env)])"
  using assms by (auto simp: temp_document_def stmt_defs Let_def split: option.splits if_splits)

lemma td_calls:
  assumes "temp_document env spec opt fmt s = (r, s')" "name s = None"
  shows "set (trace s') \<subseteq> set (trace s) \<union>
     {Mkstemp, Open_w (tmp_name env), Write_template (tmp_name env),
      Get (''file://'' @ tmp_name env), Execute_embed spec opt, Execute_convert fmt,
      Execute_extract, Os_remove (tmp_name env)}"
  using assms by (auto simp: temp_document_def stmt_defs Let_def split: option.splits if_splits)

lemma td_extract_count:
  assumes "temp_document env spec opt fmt s = (r, s')"
  shows "count_list (trace s') Execute_extract \<le> Suc (count_list (trace s) Execute_extract)"
  using assms by (auto simp: temp_document_def stmt_defs Let_def split: option.splits if_splits)

lemma td_success:
  assumes "temp_document env spec opt fmt s = (r, s')" "name s = None" "driver s"
    "Execute_extract \<notin> set (trace s)" "Execute_extract \<in> set (trace s')"
    "\<not> fails env Execute_extract" "\<not> fails env (Os_remove (tmp_name env))"
  shows "r = None"
  using assms by (auto simp: temp_document_def stmt_defs Let_def split: option.splits if_splits)

lemma td_tmp_driver:
  assumes td: "temp_document env spec opt fmt s = (r, s')" and "name s = None"
    "\<not> tmp_exists s" "\<not> fails env (Os_remove (tmp_name env))"
  shows "\<not> tmp_exists s' \<and> driver s' = driver s"
  using td_tmp [OF assms] td_frame [OF td] by simp

lemma td_resource_driver:
  assumes td: "temp_document env spec opt fmt s = (r, s')" and n: "name s = None"
  shows "filter is_resource_call (trace s') = filter is_resource_call (trace s) @
      (if fails env Mkstemp then [Mkstemp] else [Mkstemp, Os_remove (tmp_name env)]) \<and>
     driver s' = driver s"
  using td_resource [OF td n] td_frame [OF td] by simp

lemma td_success_driver:
  assumes td: "temp_document env spec opt fmt s = (r, s')" and "name s = None" "driver s"
    "Execute_extract \<notin> set (trace s)" "Execute_extract \<in> set (trace s')"
    "\<not> fails env Execute_extract" "\<not> fails env (Os_remove (tmp_name env))"
  shows "r = None \<and> driver s'"
  using td_success [OF assms] td_frame [OF td] assms(3) by simp

lemmas bs_unfold = browser_session_def stmt_defs Let_def

lemma bs_frame:
  assumes "browser_session env spec opt fmt s = (r, s')"
  shows "destination s' = destination s"
  using assms
  by (auto simp: bs_unfold split: option.splits if_splits prod.splits dest!: td_frame)

lemma bs_tmp:
  assumes "browser_session env spec opt fmt s = (r, s')" "name s = None" "\<not> tmp_exists s"
    "\<not> fails env (Os_remove (tmp_name env))"
  shows "\<not> tmp_exists s'"
  using assms
  by (auto simp: bs_unfold split: option.splits if_splits prod.splits dest!: td_tmp_driver)

lemma bs_browser:
  assumes "browser_session env spec opt fmt s = (r, s')"
  shows "browser_running s' \<longleftrightarrow>
     browser_running s \<or>
     \<not> fails env Options_new \<and> \<not> fails env (Add_argument ''--headless'') \<and>
     \<not> fails env Chrome"
  using assms
  by (auto simp: bs_unfold split: option.splits if_splits prod.splits dest!: td_frame)

lemma bs_render:
  assumes "browser_session env spec opt fmt s = (None, s')"
  shows "render s' = Some (extracted env)"
  using assms
  by (auto simp: bs_unfold split: option.splits if_splits prod.splits dest!: td_render)

lemma bs_resource:
  assumes "browser_session env spec opt fmt s = (r, s')" "name s = None" "\<not> driver s"
  shows "filter is_resource_call (trace s') = filter is_resource_call (trace s) @
     (if fails env Options_new \<or> fails env (Add_argument ''--headless'') then []
      else if fails env Chrome then [Chrome]
      else if fails env Mkstemp then [Chrome, Mkstemp, Driver_close]
      else [Chrome, Mkstemp, Os_remove (tmp_name env), Driver_close])"
  using assms
  by (auto simp: bs_unfold split: option.splits if_splits prod.splits dest!: td_resource_driver)

lemma bs_calls:
  assumes "browser_session env spec opt fmt s = (r, s')" "name s = None"
  shows "set (trace s') \<subseteq> set (trace s) \<union>
     {Options_new, Add_argument ''--headless'', Chrome, Driver_close,
      Mkstemp, Open_w (tmp_name env), Write_template (tmp_name env),
      Get (''file://'' @ tmp_name env), Execute_embed spec opt, Execute_convert fmt,
      Execute_extract, Os_remove (tmp_name env)}"
  using assms
  by (auto simp: bs_unfold split: option.splits if_splits prod.splits dest!: td_calls)

lemma bs_extract_count:
  assumes "browser_session env spec opt fmt s = (r, s')"
  shows "count_list (trace s') Execute_extract \<le> Suc (count_list (trace s) Execute_extract)"
  using assms
  by (auto simp: bs_unfold split: option.splits if_splits prod.splits dest!: td_extract_count)

lemma bs_success:
  assumes "browser_session env spec opt fmt s = (r, s')" "name s = None" "\<not> driver s"
    "Execute_extract \<notin> set (trace s)" "Execute_extract \<in> set (trace s')"
    "\<not> fails env Execute_extract" "\<not> fails env (Os_remove (tmp_name env))"
    "\<not> fails env Driver_close"
  shows "r = None"
  using assms
  by (auto simp: bs_unfold split: option.splits if_splits prod.splits dest!: td_success_driver)


lemma block_single: "block [c] s = c s"
  by (cases "c s") (auto split: option.splits)

lemma block_attempt_import:
  "block (attempt_import env m # cs) s =
     (if fails env (Import m) then (Some ImportError, s\<lparr>trace := trace s @ [Import m]\<rparr>)
      else block cs (s\<lparr>trace := trace s @ [Import m]\<rparr>))"
  by (simp add: attempt_import_def Let_def)

lemma initial_simps:
  "name initial = None" "\<not> driver initial" "\<not> tmp_exists initial"
  "\<not> browser_running initial" "destination initial = None" "render initial = None"
  "trace initial = []"
  by (simp_all add: initial_def)

lemma imported_simps:
  "name imported = None" "\<not> driver imported" "\<not> tmp_exists imported"
  "\<not> browser_running imported" "destination imported = None" "render imported = None"
  "trace imported = [Import ''selenium.webdriver'', Import ''selenium.webdriver.chrome.options'']"
  by (simp_all add: imported_def initial_def)

lemma save_spec_cases:
  assumes "save_spec env spec fp mode format = (r, s')"
  obtains
    (bad_format) "resolve_format fp format \<notin> {Some ''png'', Some ''svg''}"
      "r = Some NotImplementedError" "s' = initial"
  | (no_webdriver) "resolve_format fp format \<in> {Some ''png'', Some ''svg''}"
      "fails env (Import ''selenium.webdriver'')"
      "r = Some ImportError" "s' = initial\<lparr>trace := [Import ''selenium.webdriver'']\<rparr>"
  | (no_options) "resolve_format fp format \<in> {Some ''png'', Some ''svg''}"
      "fails env (Import ''selenium.webdriver.chrome.options'')"
      "r = Some ImportError" "s' = imported"
  | (bad_mode) m where "mode = Some m" "m \<notin> set [''vega'', ''vega-lite'']"
      "resolve_format fp format \<in> {Some ''png'', Some ''svg''}"
      "\<not> fails env (Import ''selenium.webdriver'')"
      "\<not> fails env (Import ''selenium.webdriver.chrome.options'')"
      "r = Some ValueError" "s' = imported"
  | (session) fmt opt where "resolve_format fp format = Some fmt" "fmt = ''png'' \<or> fmt = ''svg''"
      "make_opt fmt mode = Inr opt"
      "\<not> fails env (Import ''selenium.webdriver'')"
      "\<not> fails env (Import ''selenium.webdriver.chrome.options'')"
      "block [browser_session env spec opt fmt, decode_and_write env fp fmt] imported = (r, s')"
proof (cases "resolve_format fp format")
  case None
  then show ?thesis using assms bad_format by (simp add: save_spec_def)
next
  case (Some fmt)
  show ?thesis
  proof (cases "fmt = ''png'' \<or> fmt = ''svg''")
    case False
    then show ?thesis using assms Some bad_format by (auto simp: save_spec_def)
  next
    case fmt: True
    show ?thesis
    proof (cases "fails env (Import ''selenium.webdriver'')")
      case True
      then show ?thesis using assms Some fmt no_webdriver
        by (auto simp: save_spec_def attempt_import_def Let_def initial_simps)
    next
      case w: False
      show ?thesis
      proof (cases "fails env (Import ''selenium.webdriver.chrome.options'')")
        case True
        then show ?thesis using assms Some fmt w no_options
          by (auto simp: save_spec_def attempt_import_def Let_def imported_def initial_simps)
      next
        case o: False
        have run: "(case make_opt fmt mode of
                     Inl e \<Rightarrow> raise e imported
                   | Inr opt \<Rightarrow> block [browser_session env spec opt fmt,
                                      decode_and_write env fp fmt] imported) = (r, s')"
          using assms Some fmt w o
          by (auto simp: save_spec_def block_attempt_import imported_def initial_def
              block_single simp del: block.simps cong: sum.case_cong)
        show ?thesis
        proof (cases "make_opt fmt mode")
          case (Inl e)
          then obtain m where "mode = Some m" "m \<notin> set [''vega'', ''vega-lite'']" "e = ValueError"
            by (auto simp: make_opt_def Let_def split: option.splits if_splits)
          then show ?thesis using run Inl Some fmt w o bad_mode [of m]
            by (auto simp: raise_def)
        next
          case (Inr opt)
          then show ?thesis using run Some fmt w o session [of fmt opt] by simp
        qed
      qed
    qed
  qed
qed

lemma run_cases:
  assumes "block [browser_session env spec opt fmt, decode_and_write env fp fmt] s = (r, s')"
  obtains
    (session_failed) e where "browser_session env spec opt fmt s = (Some e, s')" "r = Some e"
  | (decode_failed) e where "browser_session env spec opt fmt s = (None, s')"
      "decode_render env fmt (extracted env) = Inl e" "r = Some e"
  | (write_failed) s1 img where "browser_session env spec opt fmt s = (None, s1)"
      "decode_render env fmt (extracted env) = Inr img"
      "fails env (Write_out fp img ''wb'')" "r = Some (Raised (Write_out fp img ''wb''))"
      "s' = s1\<lparr>trace := trace s1 @ [Write_out fp img ''wb''],
                destination := Some \<lparr>target = fp,
                  open_mode = (case fp of Path p \<Rightarrow> Some ''wb'' | FileObj h \<Rightarrow> None),
                  bytes = take (partial_write env) img\<rparr>\<rparr>"
  | (written) s1 img where "browser_session env spec opt fmt s = (None, s1)"
      "decode_render env fmt (extracted env) = Inr img"
      "\<not> fails env (Write_out fp img ''wb'')" "r = None"
      "s' = s1\<lparr>trace := trace s1 @ [Write_out fp img ''wb''],
                destination := Some \<lparr>target = fp,
                  open_mode = (case fp of Path p \<Rightarrow> Some ''wb'' | FileObj h \<Rightarrow> None),
                  bytes = img\<rparr>\<rparr>"
proof (cases "browser_session env spec opt fmt s")
  case (Pair r1 s1)
  show ?thesis
  proof (cases r1)
    case (Some e)
    then have "r = Some e" "s1 = s'" using assms Pair by simp_all
    then show ?thesis using Pair Some session_failed [of e] by simp
  next
    case None
    have rd: "render s1 = Some (extracted env)" using bs_render Pair None by simp
    show ?thesis
    proof (cases "decode_render env fmt (extracted env)")
      case (Inl e)
      then show ?thesis using assms Pair None rd decode_failed [of e]
        by (simp add: decode_and_write_def with_render_def raise_def)
    next
      case (Inr img)
      show ?thesis
      proof (cases "fails env (Write_out fp img ''wb'')")
        case True
        then show ?thesis using assms Pair None rd Inr write_failed [of s1 img]
          by (simp add: decode_and_write_def with_render_def write_file_or_filename_def Let_def)
      next
        case False
        then show ?thesis using assms Pair None rd Inr written [of s1 img]
          by (simp add: decode_and_write_def with_render_def write_file_or_filename_def Let_def)
      qed
    qed
  qed
qed

lemma sublist_three:
  "sublist [a, b, c] (xs @ p1 # p2 # p3 # p4 # a # b # c # ss)"
  using sublist_appendI [of "[a, b, c]" "xs @ [p1, p2, p3, p4]" ss] by simp

lemma td_extract_adjacent:
  assumes "temp_document env spec opt fmt s = (r, s')"
    and "Execute_extract \<in> set (trace s')" "Execute_extract \<notin> set (trace s)"
  shows "sublist [Execute_embed spec opt, Execute_convert fmt, Execute_extract] (trace s')"
  using assms
  by (auto simp: temp_document_def stmt_defs Let_def sublist_three
      split: option.splits if_splits)

lemma sublist_snoc_keep: "sublist xs ys \<Longrightarrow> sublist xs (ys @ zs)"
  by (simp add: sublist_append)

lemma bs_extract_adjacent:
  assumes "browser_session env spec opt fmt s = (r, s')"
    and "Execute_extract \<in> set (trace s')" "Execute_extract \<notin> set (trace s)"
  shows "sublist [Execute_embed spec opt, Execute_convert fmt, Execute_extract] (trace s')"
  using assms
  by (auto simp: bs_unfold split: option.splits if_splits prod.splits
      dest!: td_extract_adjacent intro: sublist_snoc_keep)

lemma decode_render_not_string:
  "decode_render env fmt JNull = Inl AttributeError"
  by (simp add: decode_render_def)

lemma make_opt_renderer:
  assumes "make_opt fmt mode = Inr opt"
  shows "map_of opt ''renderer'' = Some (if fmt = ''png'' then ''canvas'' else ''svg'') \<and>
         map_of opt ''mode'' = mode \<and> dom (map_of opt) = {''renderer''} \<union> (case mode of None \<Rightarrow> {} | Some m \<Rightarrow> {''mode''})"
  using assms by (auto simp: make_opt_def Let_def split: option.splits if_splits)

lemma decode_render_Inr:
  assumes "decode_render env fmt x = Inr img"
  shows "\<exists>t. x = JStr t \<and>
     (fmt = ''png'' \<longrightarrow> 1 \<le> count_list t CHR '','' \<and>
        (\<exists>b. str_encode env (split_py t CHR '','' ! 1) = Some b \<and>
             b64_decodebytes env b = Some img)) \<and>
     (fmt \<noteq> ''png'' \<longrightarrow> str_encode env t = Some img)"
  using assms
  by (cases x)
    (auto simp: decode_render_def Let_def length_split_py split: option.splits if_splits)

lemma td_error:
  assumes "temp_document env spec opt fmt s = (Some e, s')"
  shows "e \<noteq> NotImplementedError"
  using assms by (auto simp: temp_document_def stmt_defs Let_def split: option.splits if_splits)

lemma bs_error:
  assumes "browser_session env spec opt fmt s = (Some e, s')"
  shows "e \<noteq> NotImplementedError"
  using assms
  by (auto simp: bs_unfold split: option.splits if_splits prod.splits dest!: td_error)

lemma decode_render_error:
  assumes "decode_render env fmt x = Inl e"
  shows "e \<noteq> NotImplementedError"
  using assms
  by (cases x) (auto simp: decode_render_def Let_def split: option.splits if_splits)

lemma not_implemented_iff:
  "fst (save_spec env spec fp mode format) = Some NotImplementedError \<longleftrightarrow>
     resolve_format fp format \<notin> {Some ''png'', Some ''svg''}"
proof -
  obtain r s' where rs: "save_spec env spec fp mode format = (r, s')"
    by (cases "save_spec env spec fp mode format")
  from rs have "r = Some NotImplementedError \<longleftrightarrow>
     resolve_format fp format \<notin> {Some ''png'', Some ''svg''}"
  proof (cases rule: save_spec_cases)
    case (session fmt opt)
    from session(6) have "r \<noteq> Some NotImplementedError"
    proof (cases rule: run_cases)
      case (session_failed e)
      then show ?thesis using bs_error [OF session_failed(1)] by simp
    next
      case (decode_failed e)
      then show ?thesis using decode_render_error [OF decode_failed(2)] by simp
    qed simp_all
    then show ?thesis using session(1,2) by auto
  qed auto
  then show ?thesis using rs by simp
qed

lemma unsupported_format_state:
  assumes "resolve_format fp format \<notin> {Some ''png'', Some ''svg''}"
  shows "save_spec env spec fp mode format = (Some NotImplementedError, initial)"
  using assms by (auto simp: save_spec_def split: option.splits)

subsection \<open>The browser process\<close>

text \<open>
  Once \<^verbatim>\<open>webdriver.Chrome\<close> has started the browser, nothing in \<^verbatim>\<open>save_spec\<close> ends
  the process: after the call the window is closed (when \<^verbatim>\<open>driver.close()\<close> did not
  raise) and the process is still running.
\<close>

lemma launched_browser_keeps_running:
  assumes "save_spec env spec fp mode format = (r, s')"
  shows "browser_running s' \<longleftrightarrow> Chrome \<in> set (trace s') \<and> \<not> fails env Chrome"
  using assms
proof (cases rule: save_spec_cases)
  case (session fmt opt)
  have key: "browser_running sb \<longleftrightarrow> Chrome \<in> set (trace sb) \<and> \<not> fails env Chrome"
    if bs: "browser_session env spec opt fmt imported = (rb, sb)" for rb sb
    using bs_browser [OF bs] bs_resource [OF bs]
      filter_set [of is_resource_call "trace sb"]
    by (auto simp: imported_simps split: if_splits)
  from session(6) show ?thesis
  proof (cases rule: run_cases)
    case (session_failed e)
    then show ?thesis using key [of "Some e" s'] by simp
  next
    case (decode_failed e)
    then show ?thesis using key [of None s'] by simp
  next
    case (write_failed s1 img)
    then show ?thesis using key [of None s1] by simp
  next
    case (written s1 img)
    then show ?thesis using key [of None s1] by simp
  qed
qed (simp_all add: initial_simps imported_simps)

section \<open>Properties\<close>

text \<open>
  C1, as the code has it. When the call that removes the temporary file does not itself
  fail, the file does not exist after \<^verbatim>\<open>save_spec\<close>, however the call ends: on
  success, and after a failure of the browser launch, of \<^verbatim>\<open>mkstemp\<close>, of the page
  load, of a script, of decoding or of the write.
\<close>

theorem temp_file_removed_unless_removal_fails:
  assumes "save_spec env spec fp mode format = (r, s')"
    and "\<not> fails env (Os_remove (tmp_name env))"
  shows "\<not> tmp_exists s'"
  using assms(1)
proof (cases rule: save_spec_cases)
  case (session fmt opt)
  from session(6) show ?thesis
  proof (cases rule: run_cases)
    case (session_failed e)
    show ?thesis
      using bs_tmp [OF session_failed(1)] assms(2) by (simp add: imported_simps)
  next
    case (decode_failed e)
    show ?thesis
      using bs_tmp [OF decode_failed(1)] assms(2) by (simp add: imported_simps)
  next
    case (write_failed s1 img)
    show ?thesis
      using bs_tmp [OF write_failed(1)] assms(2) write_failed(5) by (simp add: imported_simps)
  next
    case (written s1 img)
    show ?thesis
      using bs_tmp [OF written(1)] assms(2) written(5) by (simp add: imported_simps)
  qed
qed (simp_all add: initial_simps imported_simps)

theorem temp_file_removed_witness:
  "Mkstemp \<in> set (trace (snd (save_spec (sample_env [Execute_convert ''svg''] JNull)
        (JObj []) (Path ''chart.svg'') None None))) \<and>
   fst (save_spec (sample_env [Execute_convert ''svg''] JNull)
        (JObj []) (Path ''chart.svg'') None None) = Some (Raised (Execute_convert ''svg'')) \<and>
   \<not> tmp_exists (snd (save_spec (sample_env [Execute_convert ''svg''] JNull)
        (JObj []) (Path ''chart.svg'') None None))"
proof -
  let ?env = "sample_env [Execute_convert ''svg''] JNull"
  let ?r = "save_spec ?env (JObj []) (Path ''chart.svg'') None None"
  have made: "Mkstemp \<in> set (trace (snd ?r))" by code_simp
  have raised: "fst ?r = Some (Raised (Execute_convert ''svg''))" by code_simp
  have ok: "\<not> fails ?env (Os_remove (tmp_name ?env))" by (simp add: sample_env_def)
  show ?thesis
    using temp_file_removed_unless_removal_fails [OF prod.collapse [symmetric] ok] made raised
    by simp
qed

text \<open>
  C1 as stated fails where \<^verbatim>\<open>os.remove\<close> itself raises: the exception leaves the
  inner \<^verbatim>\<open>finally\<close>, \<^verbatim>\<open>driver.close()\<close> is still called, and the file is still there.
\<close>

theorem temp_file_survives_failed_removal:
  "save_spec (sample_env [Os_remove ''/tmp/tmp0.html''] (JStr ''<svg></svg>''))
       (JObj []) (Path ''chart.svg'') None None =
     (Some (Raised (Os_remove ''/tmp/tmp0.html'')),
      \<lparr>browser_running = True, window_open = False, tmp_exists = True, destination = None,
       trace = [Import ''selenium.webdriver'', Import ''selenium.webdriver.chrome.options'',
                Options_new, Add_argument ''--headless'', Chrome, Mkstemp,
                Open_w ''/tmp/tmp0.html'', Write_template ''/tmp/tmp0.html'',
                Get ''file:///tmp/tmp0.html'',
                Execute_embed (JObj []) [(''renderer'', ''svg'')], Execute_convert ''svg'',
                Execute_extract, Os_remove ''/tmp/tmp0.html'', Driver_close],
       driver = True, name = Some ''/tmp/tmp0.html'',
       render = Some (JStr ''<svg></svg>'')\<rparr>)"
  by code_simp

text \<open>
  C2, as the code has it. With no format given, the format of a path resolves to
  \<^verbatim>\<open>'png'\<close> exactly when the path ends in \<^verbatim>\<open>.png\<close> or is the string \<^verbatim>\<open>png\<close>, and to
  \<^verbatim>\<open>'svg'\<close> exactly when it ends in \<^verbatim>\<open>.svg\<close> or is the string \<^verbatim>\<open>svg\<close>. The call
  raises \<^verbatim>\<open>NotImplementedError\<close> exactly for the other paths, and then it has made no
  call at all: the state is the initial one.
\<close>

theorem format_from_path:
  "(resolve_format (Path p) None = Some ''png'' \<longleftrightarrow> p = ''png'' \<or> suffix ''.png'' p) \<and>
   (resolve_format (Path p) None = Some ''svg'' \<longleftrightarrow> p = ''svg'' \<or> suffix ''.svg'' p) \<and>
   (fst (save_spec env spec (Path p) mode None) = Some NotImplementedError \<longleftrightarrow>
      \<not> (p = ''png'' \<or> suffix ''.png'' p \<or> p = ''svg'' \<or> suffix ''.svg'' p)) \<and>
   (\<not> (p = ''png'' \<or> suffix ''.png'' p \<or> p = ''svg'' \<or> suffix ''.svg'' p) \<longrightarrow>
      save_spec env spec (Path p) mode None = (Some NotImplementedError, initial))"
proof -
  have png: "resolve_format (Path p) None = Some ''png'' \<longleftrightarrow> p = ''png'' \<or> suffix ''.png'' p"
    using last_segment_iff [of "CHR ''.''" "''png''" p] by (simp add: resolve_format_def)
  have svg: "resolve_format (Path p) None = Some ''svg'' \<longleftrightarrow> p = ''svg'' \<or> suffix ''.svg'' p"
    using last_segment_iff [of "CHR ''.''" "''svg''" p] by (simp add: resolve_format_def)
  have iff: "fst (save_spec env spec (Path p) mode None) = Some NotImplementedError \<longleftrightarrow>
      \<not> (p = ''png'' \<or> suffix ''.png'' p \<or> p = ''svg'' \<or> suffix ''.svg'' p)"
    using png svg by (auto simp: not_implemented_iff)
  have st: "save_spec env spec (Path p) mode None = (Some NotImplementedError, initial)"
    if "\<not> (p = ''png'' \<or> suffix ''.png'' p \<or> p = ''svg'' \<or> suffix ''.svg'' p)"
    using that png svg by (intro unsupported_format_state) auto
  show ?thesis using png svg iff st by blast
qed

theorem format_from_path_witness:
  "resolve_format (Path ''chart.png'') None = Some ''png'' \<and>
   resolve_format (Path ''chart.svg'') None = Some ''svg'' \<and>
   save_spec (sample_env [] JNull) (JObj []) (Path ''chart.gif'') None None =
     (Some NotImplementedError, initial)"
proof -
  have p: "suffix ''.png'' ''chart.png''" "suffix ''.svg'' ''chart.svg''"
    by (simp_all add: suffix_def)
  have g: "\<not> (''chart.gif'' = ''png'' \<or> suffix ''.png'' ''chart.gif'' \<or>
              ''chart.gif'' = ''svg'' \<or> suffix ''.svg'' ''chart.gif'')"
    by (auto simp: suffix_def Cons_eq_append_conv append_eq_Cons_conv)
  show ?thesis
    using format_from_path [of "''chart.png''" "sample_env [] JNull" "JObj []" None] p(1)
      format_from_path [of "''chart.svg''" "sample_env [] JNull" "JObj []" None] p(2)
      format_from_path [of "''chart.gif''" "sample_env [] JNull" "JObj []" None] g
    by simp
qed

text \<open>
  C2 as stated fails at the path \<^verbatim>\<open>png\<close>: it ends neither in \<^verbatim>\<open>.png\<close> nor in
  \<^verbatim>\<open>.svg\<close>, yet its format resolves to \<^verbatim>\<open>'png'\<close> and the export succeeds.
\<close>

theorem bare_png_is_not_rejected:
  "\<not> suffix ''.png'' ''png'' \<and> \<not> suffix ''.svg'' ''png'' \<and>
   resolve_format (Path ''png'') None = Some ''png'' \<and>
   fst (save_spec (sample_env [] (JStr ''data:image/png;base64,'')) (JObj [])
          (Path ''png'') None None) = None"
proof -
  have "\<not> suffix ''.png'' ''png''" "\<not> suffix ''.svg'' ''png''"
    by (auto dest: suffix_length_le)
  moreover have "resolve_format (Path ''png'') None = Some ''png''" by code_simp
  moreover have "fst (save_spec (sample_env [] (JStr ''data:image/png;base64,'')) (JObj [])
          (Path ''png'') None None) = None" by code_simp
  ultimately show ?thesis by simp
qed

text \<open>
  C3, as the code has it. A call whose \<^verbatim>\<open>mode\<close> is given and is neither
  \<^verbatim>\<open>'vega'\<close> nor \<^verbatim>\<open>'vega-lite'\<close> never reaches the browser session: it makes no
  call but the two imports, starts no browser, creates no temporary file and writes
  nothing. It raises \<^verbatim>\<open>ValueError\<close> exactly when the format is supported and both
  imports succeed; otherwise the earlier check raises \<^verbatim>\<open>NotImplementedError\<close> or the
  import raises \<^verbatim>\<open>ImportError\<close>.
\<close>

theorem bad_mode_acquires_nothing:
  assumes "save_spec env spec fp (Some m) format = (r, s')"
    and "m \<notin> set [''vega'', ''vega-lite'']"
  shows "\<not> browser_running s' \<and> \<not> tmp_exists s' \<and> destination s' = None \<and>
         set (trace s') \<subseteq> {Import ''selenium.webdriver'',
                               Import ''selenium.webdriver.chrome.options''} \<and>
         (r = Some ValueError \<longleftrightarrow>
            resolve_format fp format \<in> {Some ''png'', Some ''svg''} \<and>
            \<not> fails env (Import ''selenium.webdriver'') \<and>
            \<not> fails env (Import ''selenium.webdriver.chrome.options'')) \<and>
         r \<in> {Some NotImplementedError, Some ImportError, Some ValueError}"
  using assms(1)
proof (cases rule: save_spec_cases)
  case (session fmt opt)
  then show ?thesis using assms(2) by (simp add: make_opt_def)
qed (auto simp: initial_simps imported_simps)

theorem bad_mode_acquires_nothing_witness:
  "save_spec (sample_env [] JNull) (JObj []) (Path ''chart.png'') (Some ''bogus'') None =
     (Some ValueError, imported)"
proof -
  let ?env = "sample_env [] JNull"
  let ?r = "save_spec ?env (JObj []) (Path ''chart.png'') (Some ''bogus'') None"
  have m: "''bogus'' \<notin> set [''vega'', ''vega-lite'']" by simp
  have f: "resolve_format (Path ''chart.png'') None = Some ''png''" by code_simp
  have i: "\<not> fails ?env (Import ''selenium.webdriver'')"
    "\<not> fails ?env (Import ''selenium.webdriver.chrome.options'')"
    by (simp_all add: sample_env_def)
  have "fst ?r = Some ValueError"
    using bad_mode_acquires_nothing [OF prod.collapse [symmetric] m, of ?env "JObj []"
      "Path ''chart.png''" None] f i by simp
  moreover have "snd ?r = imported" by code_simp
  ultimately show ?thesis by (simp add: prod_eq_iff)
qed

text \<open>
  C3 as stated fails where an earlier check raises first: with an unsupported format the
  call raises \<^verbatim>\<open>NotImplementedError\<close> at line 85 and never looks at the mode.
\<close>

theorem bad_mode_masked_by_bad_format:
  "''bogus'' \<notin> set [''vega'', ''vega-lite''] \<and>
   save_spec (sample_env [] JNull) (JObj []) (Path ''chart.gif'') (Some ''bogus'') None =
     (Some NotImplementedError, initial)"
  by code_simp

text \<open>
  C4, as the code has it. \<^verbatim>\<open>save_spec\<close> runs the extraction script at most once in a
  call, right after the embed and conversion scripts: there is no polling and no timeout.
  When that single read succeeds and finds
  \<^verbatim>\<open>window.image_render\<close> not yet set (the script returns null), and both releases
  succeed, the call raises \<^verbatim>\<open>AttributeError\<close> from the decoding step.
\<close>

theorem extraction_is_single_read:
  assumes "save_spec env spec fp mode format = (r, s')"
  shows "count_list (trace s') Execute_extract \<le> 1 \<and>
         (Execute_extract \<in> set (trace s') \<longrightarrow>
            (\<exists>opt fmt. sublist [Execute_embed spec opt, Execute_convert fmt, Execute_extract]
                          (trace s'))) \<and>
         (extracted env = JNull \<and> Execute_extract \<in> set (trace s') \<and>
          \<not> fails env Execute_extract \<and> \<not> fails env (Os_remove (tmp_name env)) \<and>
          \<not> fails env Driver_close \<longrightarrow> r = Some AttributeError)"
  using assms
proof (cases rule: save_spec_cases)
  case (session fmt opt)
  from session(6) show ?thesis
  proof (cases rule: run_cases)
    case (session_failed e)
    show ?thesis
      using bs_extract_count [OF session_failed(1)] bs_success [OF session_failed(1)]
        bs_extract_adjacent [OF session_failed(1)]
      by (auto simp: imported_simps)
  next
    case (decode_failed e)
    show ?thesis
      using bs_extract_count [OF decode_failed(1)] decode_failed(2,3)
        bs_extract_adjacent [OF decode_failed(1)]
      by (auto simp: imported_simps decode_render_not_string)
  next
    case (write_failed s1 img)
    show ?thesis
      using bs_extract_count [OF write_failed(1)] write_failed(2,5)
        bs_extract_adjacent [OF write_failed(1)]
      by (auto simp: imported_simps decode_render_not_string intro: sublist_snoc_keep)
  next
    case (written s1 img)
    show ?thesis
      using bs_extract_count [OF written(1)] written(2,5)
        bs_extract_adjacent [OF written(1)]
      by (auto simp: imported_simps decode_render_not_string intro: sublist_snoc_keep)
  qed
qed (simp_all add: initial_simps imported_simps)

theorem extraction_is_single_read_witness:
  "count_list (trace (snd (save_spec (sample_env [] JNull) (JObj []) (Path ''chart.svg'')
      (Some ''vega-lite'') None))) Execute_extract \<le> 1 \<and>
   fst (save_spec (sample_env [] JNull) (JObj []) (Path ''chart.svg'')
      (Some ''vega-lite'') None) = Some AttributeError"
proof -
  let ?env = "sample_env [] JNull"
  let ?r = "save_spec ?env (JObj []) (Path ''chart.svg'') (Some ''vega-lite'') None"
  have "Execute_extract \<in> set (trace (snd ?r))" by code_simp
  moreover have "extracted ?env = JNull" "\<not> fails ?env Execute_extract"
    "\<not> fails ?env (Os_remove (tmp_name ?env))" "\<not> fails ?env Driver_close"
    by (simp_all add: sample_env_def)
  ultimately show ?thesis
    using extraction_is_single_read [OF prod.collapse [symmetric], of ?env "JObj []"
      "Path ''chart.svg''" "Some ''vega-lite''" None]
    by simp
qed

text \<open>
  C4 as stated fails: with every call succeeding and the global still unset, the trace has
  one extraction, right after the embed and conversion scripts, and the call ends in
  \<^verbatim>\<open>AttributeError\<close> (\<^verbatim>\<open>None\<close> has no \<^verbatim>\<open>split\<close>), not in a timeout.
\<close>

theorem extraction_read_once_without_timeout:
  "save_spec (sample_env [] JNull) (JObj []) (Path ''chart.png'') None None =
     (Some AttributeError,
      \<lparr>browser_running = True, window_open = False, tmp_exists = False,
       destination = None,
       trace = [Import ''selenium.webdriver'', Import ''selenium.webdriver.chrome.options'',
                Options_new, Add_argument ''--headless'', Chrome, Mkstemp,
                Open_w ''/tmp/tmp0.html'', Write_template ''/tmp/tmp0.html'',
                Get ''file:///tmp/tmp0.html'',
                Execute_embed (JObj []) [(''renderer'', ''canvas'')], Execute_convert ''png'',
                Execute_extract, Os_remove ''/tmp/tmp0.html'', Driver_close],
       driver = True, name = Some ''/tmp/tmp0.html'', render = Some JNull\<rparr>)"
  by code_simp

text \<open>
  C5. Whenever the embed script is executed, it is executed on the caller's specification
  and on an \<^verbatim>\<open>opt\<close> dictionary whose \<^verbatim>\<open>renderer\<close> is \<^verbatim>\<open>'canvas'\<close> for the format
  \<^verbatim>\<open>'png'\<close> and \<^verbatim>\<open>'svg'\<close> for the format \<^verbatim>\<open>'svg'\<close> (the format is one of the two),
  and which has a \<^verbatim>\<open>mode\<close> key exactly when \<^verbatim>\<open>mode\<close> was supplied, with that value.
\<close>

theorem embed_options:
  assumes "save_spec env spec fp mode format = (r, s')"
    and "Execute_embed sp opt \<in> set (trace s')"
  shows "sp = spec \<and>
         (resolve_format fp format = Some ''png'' \<or> resolve_format fp format = Some ''svg'') \<and>
         (resolve_format fp format = Some ''png'' \<longrightarrow> map_of opt ''renderer'' = Some ''canvas'') \<and>
         (resolve_format fp format = Some ''svg'' \<longrightarrow> map_of opt ''renderer'' = Some ''svg'') \<and>
         (''mode'' \<in> dom (map_of opt) \<longleftrightarrow> mode \<noteq> None) \<and>
         map_of opt ''mode'' = mode"
  using assms(1)
proof (cases rule: save_spec_cases)
  case (session fmt opt0)
  have key: "sp = spec \<and> opt = opt0"
    if bs: "browser_session env spec opt0 fmt imported = (rb, sb)"
      and mem: "Execute_embed sp opt \<in> set (trace sb)" for rb sb
    using bs_calls [OF bs] mem by (auto simp: imported_simps)
  have "sp = spec \<and> opt = opt0"
    using session(6)
  proof (cases rule: run_cases)
    case (session_failed e)
    then show ?thesis using key [of "Some e" s'] assms(2) by simp
  next
    case (decode_failed e)
    then show ?thesis using key [of None s'] assms(2) by simp
  next
    case (write_failed s1 img)
    then show ?thesis using key [of None s1] assms(2) by simp
  next
    case (written s1 img)
    then show ?thesis using key [of None s1] assms(2) by simp
  qed
  then show ?thesis
    using make_opt_renderer [OF session(3)] session(1,2) by (auto split: option.splits)
qed (use assms(2) in \<open>simp_all add: initial_simps imported_simps\<close>)

theorem embed_options_witness:
  "map_of [(''renderer'', ''svg''), (''mode'', ''vega-lite'')] ''renderer'' = Some ''svg'' \<and>
   map_of [(''renderer'', ''svg''), (''mode'', ''vega-lite'')] ''mode'' = Some ''vega-lite'' \<and>
   Execute_embed (JObj []) [(''renderer'', ''svg''), (''mode'', ''vega-lite'')] \<in>
     set (trace (snd (save_spec (sample_env [] (JStr ''<svg></svg>'')) (JObj [])
       (Path ''chart.svg'') (Some ''vega-lite'') None)))"
proof -
  let ?env = "sample_env [] (JStr ''<svg></svg>'')"
  let ?r = "save_spec ?env (JObj []) (Path ''chart.svg'') (Some ''vega-lite'') None"
  let ?opt = "[(''renderer'', ''svg''), (''mode'', ''vega-lite'')]"
  have mem: "Execute_embed (JObj []) ?opt \<in> set (trace (snd ?r))" by code_simp
  have f: "resolve_format (Path ''chart.svg'') None = Some ''svg''" by code_simp
  show ?thesis
    using embed_options [OF prod.collapse [symmetric] mem] f mem by simp
qed

text \<open>
  C6. After a successful export the destination holds exactly the decoded image. For the
  format \<^verbatim>\<open>'png'\<close> the bytes are \<^verbatim>\<open>base64.decodebytes\<close> of the encoded second
  comma-separated piece of the extracted string, which for a data URI (a string with one
  comma) is its payload, the portion after the comma; for the format \<^verbatim>\<open>'svg'\<close> they
  are the encoding of the extracted string. The last call of \<^verbatim>\<open>save_spec\<close> hands
  these bytes to \<^verbatim>\<open>write_file_or_filename\<close> with \<^verbatim>\<open>mode='wb'\<close>, so a path is
  opened in binary-write mode.
\<close>

theorem export_writes_decoded_image:
  assumes "save_spec env spec fp mode format = (None, s')"
  shows "\<exists>fmt t img.
     resolve_format fp format = Some fmt \<and> (fmt = ''png'' \<or> fmt = ''svg'') \<and>
     extracted env = JStr t \<and>
     destination s' =
       Some \<lparr>target = fp,
             open_mode = (case fp of Path p \<Rightarrow> Some ''wb'' | FileObj h \<Rightarrow> None),
             bytes = img\<rparr> \<and>
     last (trace s') = Write_out fp img ''wb'' \<and>
     (fmt = ''png'' \<longrightarrow>
        (\<exists>b. str_encode env (split_py t CHR '','' ! 1) = Some b \<and>
             b64_decodebytes env b = Some img)) \<and>
     (fmt = ''png'' \<and> count_list t CHR '','' = 1 \<longrightarrow>
        (\<exists>b. str_encode env (payload t) = Some b \<and> b64_decodebytes env b = Some img)) \<and>
     (fmt = ''svg'' \<longrightarrow> str_encode env t = Some img)"
  using assms
proof (cases rule: save_spec_cases)
  case (session fmt opt)
  from session(6) show ?thesis
  proof (cases rule: run_cases)
    case (written s1 img)
    obtain t where t: "extracted env = JStr t"
      and png: "fmt = ''png'' \<longrightarrow>
        (\<exists>b. str_encode env (split_py t CHR '','' ! 1) = Some b \<and>
             b64_decodebytes env b = Some img)"
      and svg: "fmt \<noteq> ''png'' \<longrightarrow> str_encode env t = Some img"
      using decode_render_Inr [OF written(2)] by blast
    have "count_list t CHR '','' = 1 \<Longrightarrow> split_py t CHR '','' ! 1 = payload t"
      using split_py_second [of t "CHR '',''"] by (simp add: payload_def)
    then show ?thesis
      using session(1,2) t png svg written(5) bs_frame [OF written(1)]
      by (auto simp: imported_simps)
  qed simp_all
qed simp_all

theorem export_writes_decoded_image_witness:
  "destination (snd (save_spec (sample_env [] (JStr ''data:image/png;base64,iVBORw0KGgo=''))
      (JObj []) (Path ''chart.png'') None None)) =
     Some \<lparr>target = Path ''chart.png'', open_mode = Some ''wb'',
           bytes = [137, 80, 78, 71, 13, 10, 26, 10]\<rparr> \<and>
   destination (snd (save_spec (sample_env [] (JStr ''<svg/>''))
      (JObj []) (FileObj 3) None (Some ''svg''))) =
     Some \<lparr>target = FileObj 3, open_mode = None, bytes = [60, 115, 118, 103, 47, 62]\<rparr>"
proof -
  let ?uri = "''data:image/png;base64,iVBORw0KGgo=''"
  let ?png = "sample_env [] (JStr ?uri)"
  let ?p = "save_spec ?png (JObj []) (Path ''chart.png'') None None"
  let ?svg = "sample_env [] (JStr ''<svg/>'')"
  let ?s = "save_spec ?svg (JObj []) (FileObj 3) None (Some ''svg'')"
  have "fst ?p = None" by code_simp
  then have p: "?p = (None, snd ?p)" by (simp add: prod_eq_iff)
  have "fst ?s = None" by code_simp
  then have s: "?s = (None, snd ?s)" by (simp add: prod_eq_iff)
  have f: "resolve_format (Path ''chart.png'') None = Some ''png''"
    "resolve_format (FileObj 3) (Some ''svg'') = Some ''svg''"
    by code_simp+
  have c: "count_list ?uri CHR '','' = 1" by simp
  have pl: "payload ?uri = ''iVBORw0KGgo=''" by (simp add: payload_def)
  have e: "extracted ?png = JStr ?uri" "extracted ?svg = JStr ''<svg/>''"
    "str_encode ?png = utf8_encode" "b64_decodebytes ?png = b64_decode"
    "str_encode ?svg = utf8_encode"
    by (simp_all add: sample_env_def)
  have enc: "utf8_encode ''iVBORw0KGgo='' =
      Some [105, 86, 66, 79, 82, 119, 48, 75, 71, 103, 111, 61]"
    by code_simp
  have dec: "b64_decode [105, 86, 66, 79, 82, 119, 48, 75, 71, 103, 111, 61] =
      Some [137, 80, 78, 71, 13, 10, 26, 10]"
    by code_simp
  have svg: "utf8_encode ''<svg/>'' = Some [60, 115, 118, 103, 47, 62]"
    by code_simp
  have "destination (snd ?p) =
     Some \<lparr>target = Path ''chart.png'', open_mode = Some ''wb'',
           bytes = [137, 80, 78, 71, 13, 10, 26, 10]\<rparr>"
    using export_writes_decoded_image [OF p] f(1) c pl e(1,3,4) enc dec by auto
  moreover have "destination (snd ?s) =
     Some \<lparr>target = FileObj 3, open_mode = None, bytes = [60, 115, 118, 103, 47, 62]\<rparr>"
    using export_writes_decoded_image [OF s] f(2) e(2,5) svg by auto
  ultimately show ?thesis by simp
qed

text \<open>
  C7. A call that raises anywhere but in the write to the destination itself (at format
  resolution, import, mode validation, in the browser session, in a script, in a release
  or in decoding) has written nothing and has not called the writer. Whenever the writer
  is called, it is the last call, on \<^verbatim>\<open>fp\<close> in mode \<^verbatim>\<open>'wb'\<close>, with the bytes that
  decoding the extracted value produced.
\<close>

theorem failed_call_writes_nothing:
  assumes "save_spec env spec fp mode format = (r, s')"
  shows "((\<exists>e. r = Some e \<and> (\<forall>img. e \<noteq> Raised (Write_out fp img ''wb''))) \<longrightarrow>
            destination s' = None \<and> (\<forall>d img m. Write_out d img m \<notin> set (trace s'))) \<and>
         (\<forall>d img m. Write_out d img m \<in> set (trace s') \<longrightarrow>
            d = fp \<and> m = ''wb'' \<and> last (trace s') = Write_out d img m \<and>
            (\<exists>fmt. resolve_format fp format = Some fmt \<and>
                   decode_render env fmt (extracted env) = Inr img))"
  using assms
proof (cases rule: save_spec_cases)
  case (session fmt opt)
  have nowrite: "Write_out d img m \<notin> set (trace sb)"
    if "browser_session env spec opt fmt imported = (rb, sb)" for rb sb d img m
    using bs_calls [OF that] by (auto simp: imported_simps)
  from session(6) show ?thesis
  proof (cases rule: run_cases)
    case (session_failed e)
    then show ?thesis
      using nowrite [OF session_failed(1)] bs_frame [OF session_failed(1)]
      by (simp add: imported_simps)
  next
    case (decode_failed e)
    then show ?thesis
      using nowrite [OF decode_failed(1)] bs_frame [OF decode_failed(1)]
      by (simp add: imported_simps)
  next
    case (write_failed s1 img)
    then show ?thesis
      using nowrite [OF write_failed(1)] session(1) by auto
  next
    case (written s1 img)
    then show ?thesis
      using nowrite [OF written(1)] session(1) by auto
  qed
qed (simp_all add: initial_simps imported_simps)

theorem failed_call_writes_nothing_witness:
  "fst (save_spec (sample_env [] (JStr ''no payload'')) (JObj []) (Path ''chart.png'')
      None None) = Some IndexError \<and>
   destination (snd (save_spec (sample_env [] (JStr ''no payload'')) (JObj [])
      (Path ''chart.png'') None None)) = None"
proof -
  let ?env = "sample_env [] (JStr ''no payload'')"
  let ?r = "save_spec ?env (JObj []) (Path ''chart.png'') None None"
  have e: "fst ?r = Some IndexError" by code_simp
  show ?thesis
    using failed_call_writes_nothing [OF prod.collapse [symmetric], of ?env "JObj []"
      "Path ''chart.png''" None None] e
    by simp
qed

text \<open>
  C8. A call that acquires both resources (the browser was launched and the temporary file
  was created) makes exactly four acquiring or releasing calls, in this order:
  \<^verbatim>\<open>webdriver.Chrome\<close>, \<^verbatim>\<open>mkstemp\<close>, \<^verbatim>\<open>os.remove\<close> of the temporary file,
  \<^verbatim>\<open>driver.close()\<close>. This holds however the statements in between end, so both
  release calls are unconditional and in the reverse order of the acquisitions.
\<close>

theorem release_reverses_acquisition:
  assumes "save_spec env spec fp mode format = (r, s')"
    and "Chrome \<in> set (trace s')" "\<not> fails env Chrome"
    and "Mkstemp \<in> set (trace s')" "\<not> fails env Mkstemp"
  shows "filter is_resource_call (trace s') =
           [Chrome, Mkstemp, Os_remove (tmp_name env), Driver_close]"
  using assms(1)
proof (cases rule: save_spec_cases)
  case (session fmt opt)
  have res: "filter is_resource_call (trace s') =
               [Chrome, Mkstemp, Os_remove (tmp_name env), Driver_close]"
    if bs: "browser_session env spec opt fmt imported = (rb, sb)"
      and eq: "filter is_resource_call (trace s') = filter is_resource_call (trace sb)"
      and c: "Chrome \<in> set (trace s') \<longrightarrow> Chrome \<in> set (trace sb)"
    for rb sb
  proof -
    have "Chrome \<in> set (filter is_resource_call (trace sb))"
      using c assms(2) by simp
    then show ?thesis
      using bs_resource [OF bs] assms(3,5) eq
      by (simp add: imported_simps split: if_splits)
  qed
  from session(6) show ?thesis
  proof (cases rule: run_cases)
    case (session_failed e)
    then show ?thesis using res [of "Some e" s'] by simp
  next
    case (decode_failed e)
    then show ?thesis using res [of None s'] by simp
  next
    case (write_failed s1 img)
    then show ?thesis using res [of None s1] by simp
  next
    case (written s1 img)
    then show ?thesis using res [of None s1] by simp
  qed
qed (use assms(2) in \<open>simp_all add: initial_simps imported_simps\<close>)

theorem release_reverses_acquisition_witness:
  "filter is_resource_call
     (trace (snd (save_spec (sample_env [Execute_embed (JObj []) [(''renderer'', ''canvas'')]] JNull)
        (JObj []) (Path ''chart.png'') None None))) =
   [Chrome, Mkstemp, Os_remove ''/tmp/tmp0.html'', Driver_close]"
proof -
  let ?env = "sample_env [Execute_embed (JObj []) [(''renderer'', ''canvas'')]] JNull"
  let ?s = "snd (save_spec ?env (JObj []) (Path ''chart.png'') None None)"
  have tr: "trace ?s =
     [Import ''selenium.webdriver'', Import ''selenium.webdriver.chrome.options'',
      Options_new, Add_argument ''--headless'', Chrome, Mkstemp,
      Open_w ''/tmp/tmp0.html'', Write_template ''/tmp/tmp0.html'',
      Get ''file:///tmp/tmp0.html'', Execute_embed (JObj []) [(''renderer'', ''canvas'')],
      Os_remove ''/tmp/tmp0.html'', Driver_close]"
    by code_simp
  have "Chrome \<in> set (trace ?s)" "Mkstemp \<in> set (trace ?s)"
    by (simp_all add: tr)
  moreover have "\<not> fails ?env Chrome" "\<not> fails ?env Mkstemp" "tmp_name ?env = ''/tmp/tmp0.html''"
    by (simp_all add: sample_env_def)
  ultimately show ?thesis
    using release_reverses_acquisition [OF prod.collapse [symmetric], of ?env
      "JObj []" "Path ''chart.png''" None None]
    by simp
qed

text \<open>
  C9. With no format given, the format of a path is the last piece of the whole string
  after splitting at every dot, that is, what follows its last dot. A path without a dot
  is its own format, so the bare filename \<^verbatim>\<open>png\<close> is taken as the format \<^verbatim>\<open>'png'\<close>:
  the call is not rejected and runs exactly as with \<^verbatim>\<open>format='png'\<close>. The comparison is
  case-sensitive: a path ending in \<^verbatim>\<open>.PNG\<close> raises \<^verbatim>\<open>NotImplementedError\<close> before
  anything else happens.
\<close>

theorem format_is_last_dot_segment:
  "resolve_format (Path p) None = Some (rev (takeWhile (\<lambda>c. c \<noteq> CHR ''.'') (rev p))) \<and>
   (CHR ''.'' \<notin> set p \<longrightarrow> resolve_format (Path p) None = Some p) \<and>
   resolve_format (Path ''png'') None = Some ''png'' \<and>
   fst (save_spec env spec (Path ''png'') mode None) \<noteq> Some NotImplementedError \<and>
   save_spec env spec (Path ''png'') mode None = save_spec env spec (Path ''png'') mode (Some ''png'') \<and>
   (suffix ''.PNG'' p \<longrightarrow>
      save_spec env spec (Path p) mode None = (Some NotImplementedError, initial))"
proof -
  have a: "resolve_format (Path p) None = Some (rev (takeWhile (\<lambda>c. c \<noteq> CHR ''.'') (rev p)))"
    by (simp add: resolve_format_def last_split_py)
  have b: "CHR ''.'' \<notin> set p \<longrightarrow> resolve_format (Path p) None = Some p"
    by (simp add: resolve_format_def split_py_no_sep)
  have c: "resolve_format (Path ''png'') None = Some ''png''"
    by (simp add: resolve_format_def)
  have d: "fst (save_spec env spec (Path ''png'') mode None) \<noteq> Some NotImplementedError"
    using c by (simp add: not_implemented_iff)
  have e: "save_spec env spec (Path ''png'') mode None =
           save_spec env spec (Path ''png'') mode (Some ''png'')"
    using c by (simp add: save_spec_def resolve_format_def)
  have f: "save_spec env spec (Path p) mode None = (Some NotImplementedError, initial)"
    if "suffix ''.PNG'' p"
  proof -
    have "last (split_py p CHR ''.'') = ''PNG''"
      using that last_segment_iff [of "CHR ''.''" "''PNG''" p] by simp
    then have "resolve_format (Path p) None = Some ''PNG''"
      by (simp add: resolve_format_def)
    then show ?thesis by (simp add: unsupported_format_state)
  qed
  show ?thesis using a b c d e f by blast
qed

theorem format_is_last_dot_segment_witness:
  "resolve_format (Path ''archive.tar.svg'') None = Some ''svg'' \<and>
   resolve_format (Path ''svg'') None = Some ''svg'' \<and>
   save_spec (sample_env [] JNull) (JObj []) (Path ''chart.PNG'') None None =
     (Some NotImplementedError, initial)"
proof -
  have s: "suffix ''.PNG'' ''chart.PNG''" by (simp add: suffix_def)
  have d: "CHR ''.'' \<notin> set ''svg''" by simp
  have "rev (takeWhile (\<lambda>c. c \<noteq> CHR ''.'') (rev ''archive.tar.svg'')) = ''svg''" by simp
  then show ?thesis
    using format_is_last_dot_segment [of "''archive.tar.svg''" "sample_env [] JNull" "JObj []" None]
      format_is_last_dot_segment [of "''svg''" "sample_env [] JNull" "JObj []" None] d
      format_is_last_dot_segment [of "''chart.PNG''" "sample_env [] JNull" "JObj []" None] s
    by simp
qed

text \<open>
  C10. When the destination is an open file-like object and no format is given, the format
  stays unresolved and the call raises \<^verbatim>\<open>NotImplementedError\<close> before anything else
  happens: no import, no call, no change of state.
\<close>

theorem file_object_needs_format:
  "resolve_format (FileObj h) None = None \<and>
   save_spec env spec (FileObj h) mode None = (Some NotImplementedError, initial)"
  by (simp add: save_spec_def resolve_format_def)

end
